theory Spec2Isabelle
  imports Main
begin

section \<open>Python strings\<close>

text \<open>
  A Python \<^verbatim>\<open>str\<close> is a sequence of Unicode code points. The program handles
  characters outside ASCII (the en dash U+2013, the full-width semicolon U+FF1B, the
  heading of the reference list), so a character is modelled by its code point, the
  value of Python's \<^verbatim>\<open>ord\<close>, and a string by the list of its code points.
  \<open>ustr\<close> turns an ASCII literal into such a list.
\<close>

type_synonym uchar = int
type_synonym ustring = "int list"

definition ustr :: "string \<Rightarrow> ustring" where
  "ustr s = map of_char s"

text \<open>
  \<^verbatim>\<open>str.isspace\<close>, \<^verbatim>\<open>str.strip()\<close>, \<^verbatim>\<open>str.split()\<close> and the \<^verbatim>\<open>\s\<close> of
  \<^verbatim>\<open>re\<close> on a \<^verbatim>\<open>str\<close> pattern agree on what whitespace is: the 29 code points below.
\<close>

definition py_isspace :: "uchar \<Rightarrow> bool" where
  "py_isspace c =
     (9 \<le> c \<and> c \<le> 13 \<or> 28 \<le> c \<and> c \<le> 32 \<or> c = 133 \<or> c = 160 \<or> c = 5760 \<or>
      8192 \<le> c \<and> c \<le> 8202 \<or> c = 8232 \<or> c = 8233 \<or> c = 8239 \<or> c = 8287 \<or>
      c = 12288)"

text \<open>
  \<^verbatim>\<open>\d\<close> on a \<^verbatim>\<open>str\<close> pattern is any character of the Unicode category Nd. Every
  block of that category is a run of ten code points; \<open>nd_blocks\<close> lists where the blocks
  outside ASCII start (Unicode 14.0, the table of CPython 3.11). The theorems stated for
  every input hold whatever this table holds.
\<close>

definition nd_blocks :: "int list" where
  "nd_blocks =
     [1632, 1776, 1984, 2406, 2534, 2662, 2790, 2918, 3046, 3174, 3302, 3430, 3558,
      3664, 3792, 3872, 4160, 4240, 6112, 6160, 6470, 6608, 6784, 6800, 6992, 7088,
      7232, 7248, 42528, 43216, 43264, 43472, 43504, 43600, 44016, 65296, 66720,
      68912, 69734, 69872, 69942, 70096, 70384, 70736, 70864, 71248, 71360, 71472,
      71904, 72016, 72784, 73040, 73120, 92768, 92864, 93008, 120782, 120792,
      120802, 120812, 120822, 123200, 123632, 125264, 130032]"

definition re_digit :: "uchar \<Rightarrow> bool" where
  "re_digit c =
     (if c < 128 then 48 \<le> c \<and> c \<le> 57
      else list_ex (\<lambda>lo. lo \<le> c \<and> c \<le> lo + 9) nd_blocks)"

text \<open>\<^verbatim>\<open>.\<close> without the DOTALL flag: every character but the line feed.\<close>

definition re_dot :: "uchar \<Rightarrow> bool" where
  "re_dot c = (c \<noteq> 10)"

subsection \<open>The string methods the program calls\<close>

text \<open>
  \<^verbatim>\<open>s.replace(old, new)\<close>: every occurrence of \<open>old\<close>, found left to right without
  overlap, becomes \<open>new\<close>. With an empty \<open>old\<close>, Python puts \<open>new\<close> before every
  character and at the end.
\<close>

fun replace_go :: "ustring \<Rightarrow> ustring \<Rightarrow> ustring \<Rightarrow> ustring" where
  "replace_go old new [] = []"
| "replace_go old new (c # cs) =
     (if take (length old) (c # cs) = old
      then new @ replace_go old new (drop (length old - 1) cs)
      else c # replace_go old new cs)"

definition py_replace :: "ustring \<Rightarrow> ustring \<Rightarrow> ustring \<Rightarrow> ustring" where
  "py_replace old new s =
     (if old = [] then new @ concat (map (\<lambda>c. c # new) s) else replace_go old new s)"

text \<open>\<^verbatim>\<open>s.strip(chars)\<close> and \<^verbatim>\<open>s.strip()\<close>: drop the characters of a set at both ends.\<close>

definition py_strip_of :: "(uchar \<Rightarrow> bool) \<Rightarrow> ustring \<Rightarrow> ustring" where
  "py_strip_of P s = rev (dropWhile P (rev (dropWhile P s)))"

definition py_strip :: "ustring \<Rightarrow> ustring" where
  "py_strip s = py_strip_of py_isspace s"

text \<open>\<^verbatim>\<open>s.split(sep)\<close> for a separator of one character: empty pieces are kept.\<close>

fun split_go :: "uchar \<Rightarrow> ustring \<Rightarrow> ustring \<Rightarrow> ustring list" where
  "split_go sep acc [] = [rev acc]"
| "split_go sep acc (c # cs) =
     (if c = sep then rev acc # split_go sep [] cs else split_go sep (c # acc) cs)"

definition py_split :: "uchar \<Rightarrow> ustring \<Rightarrow> ustring list" where
  "py_split sep s = split_go sep [] s"

text \<open>\<^verbatim>\<open>s.split(sep, 1)\<close>: split at the first separator only.\<close>

definition py_split1 :: "uchar \<Rightarrow> ustring \<Rightarrow> ustring list" where
  "py_split1 sep s =
     (if sep \<in> set s
      then [takeWhile (\<lambda>c. c \<noteq> sep) s, tl (dropWhile (\<lambda>c. c \<noteq> sep) s)]
      else [s])"

text \<open>\<^verbatim>\<open>s.split()\<close>: the maximal runs of non-whitespace characters.\<close>

fun split_ws_go :: "ustring \<Rightarrow> ustring \<Rightarrow> ustring list" where
  "split_ws_go acc [] = (if acc = [] then [] else [rev acc])"
| "split_ws_go acc (c # cs) =
     (if py_isspace c
      then (if acc = [] then split_ws_go [] cs else rev acc # split_ws_go [] cs)
      else split_ws_go (c # acc) cs)"

definition py_split_ws :: "ustring \<Rightarrow> ustring list" where
  "py_split_ws s = split_ws_go [] s"

text \<open>\<^verbatim>\<open>sep.join(xs)\<close>.\<close>

fun py_join :: "ustring \<Rightarrow> ustring list \<Rightarrow> ustring" where
  "py_join sep [] = []"
| "py_join sep [x] = x"
| "py_join sep (x # y # ys) = x @ sep @ py_join sep (y # ys)"

text \<open>\<^verbatim>\<open>str(n)\<close> of an integer, as an f-string prints it.\<close>

fun digits_of :: "nat \<Rightarrow> ustring" where
  "digits_of n = (if n < 10 then [48 + int n] else digits_of (n div 10) @ [48 + int (n mod 10)])"

definition py_str_int :: "int \<Rightarrow> ustring" where
  "py_str_int i = (if i < 0 then 45 # digits_of (nat (- i)) else digits_of (nat i))"

section \<open>Regular expressions\<close>

text \<open>
  The patterns of the program use literals, character classes, sequence, alternation,
  counted repetition of a character class (greedy or lazy), numbered groups and the
  anchors. \<^verbatim>\<open>re\<close> is a backtracking matcher: it explores the ways a pattern can match in
  a fixed priority order and takes the first that succeeds. \<open>matches r st\<close> lists, in
  that order, the states every way of matching \<open>r\<close> from \<open>st\<close> ends in; a state is the
  position in the text, the text still to read and the groups closed so far.
\<close>

datatype re =
    Eps
  | Lit uchar
  | Str ustring
  | Cls "uchar \<Rightarrow> bool"
  | Seq re re
  | Alt re re
  | Rep "uchar \<Rightarrow> bool" nat "nat option" bool
  | Grp nat re
  | Bol
  | Eol

type_synonym mstate = "nat \<times> ustring \<times> (nat \<times> ustring) list"

fun matches :: "re \<Rightarrow> mstate \<Rightarrow> mstate list" where
  "matches Eps st = [st]"
| "matches (Lit c) (p, s, g) =
     (case s of [] \<Rightarrow> [] | x # xs \<Rightarrow> if x = c then [(Suc p, xs, g)] else [])"
| "matches (Str l) (p, s, g) =
     (if take (length l) s = l then [(p + length l, drop (length l) s, g)] else [])"
| "matches (Cls P) (p, s, g) =
     (case s of [] \<Rightarrow> [] | x # xs \<Rightarrow> if P x then [(Suc p, xs, g)] else [])"
| "matches (Seq a b) st = concat (map (matches b) (matches a st))"
| "matches (Alt a b) st = matches a st @ matches b st"
| "matches (Rep P lo hi greedy) (p, s, g) =
     (let n = length (takeWhile P s);
          u = (case hi of None \<Rightarrow> n | Some h \<Rightarrow> min h n);
          ks = [lo..<Suc u]
      in map (\<lambda>k. (p + k, drop k s, g)) (if greedy then rev ks else ks))"
| "matches (Grp k r) (p, s, g) =
     map (\<lambda>(p', s', g'). (p', s', (k, take (p' - p) s) # g')) (matches r (p, s, g))"
| "matches Bol (p, s, g) = (if p = 0 then [(p, s, g)] else [])"
| "matches Eol (p, s, g) = (if s = [] \<or> s = [10] then [(p, s, g)] else [])"

text \<open>A sequence of patterns.\<close>

fun seqs :: "re list \<Rightarrow> re" where
  "seqs [] = Eps"
| "seqs [r] = r"
| "seqs (r # rs) = Seq r (seqs rs)"

text \<open>\<^verbatim>\<open>m.group(k)\<close> of a match.\<close>

definition group :: "nat \<Rightarrow> mstate \<Rightarrow> ustring" where
  "group k m = (case map_of (snd (snd m)) k of Some t \<Rightarrow> t | None \<Rightarrow> [])"

text \<open>\<^verbatim>\<open>re.match\<close>: the first way of matching at the start of the text.\<close>

definition re_match :: "re \<Rightarrow> ustring \<Rightarrow> mstate option" where
  "re_match r s = (case matches r (0, s, []) of [] \<Rightarrow> None | m # _ \<Rightarrow> Some m)"

text \<open>\<^verbatim>\<open>re.search\<close>: the first way of matching at the leftmost position that has one.\<close>

fun search_from :: "re \<Rightarrow> nat \<Rightarrow> ustring \<Rightarrow> mstate option" where
  "search_from r p [] = (case matches r (p, [], []) of [] \<Rightarrow> None | m # _ \<Rightarrow> Some m)"
| "search_from r p (c # cs) =
     (case matches r (p, c # cs, []) of
        [] \<Rightarrow> search_from r (Suc p) cs
      | m # _ \<Rightarrow> Some m)"

definition re_search :: "re \<Rightarrow> ustring \<Rightarrow> mstate option" where
  "re_search r s = search_from r 0 s"

text \<open>
  \<^verbatim>\<open>re.findall\<close> for a pattern with one group that cannot match the empty string: the
  group of every match, left to right, the scan going on where the last match ended
  (\<open>skip\<close> counts the characters of that match still to pass).
\<close>

fun findall_go :: "re \<Rightarrow> nat \<Rightarrow> nat \<Rightarrow> ustring \<Rightarrow> ustring list" where
  "findall_go r p skip [] = []"
| "findall_go r p skip (c # cs) =
     (if 0 < skip then findall_go r (Suc p) (skip - 1) cs
      else (case matches r (p, c # cs, []) of
              [] \<Rightarrow> findall_go r (Suc p) 0 cs
            | m # _ \<Rightarrow> group 1 m # findall_go r (Suc p) (fst m - p - 1) cs))"

definition re_findall :: "re \<Rightarrow> ustring \<Rightarrow> ustring list" where
  "re_findall r s = findall_go r 0 0 s"

section \<open>smart_parse_authors\<close>

datatype py_error = IndexError | ValueError

record author =
  family :: ustring
  given :: ustring

text \<open>The characters of \<^verbatim>\<open>p.strip(" ,.")\<close>: space, comma, full stop.\<close>

definition strip_set :: "uchar \<Rightarrow> bool" where
  "strip_set c = (c = 32 \<or> c = 44 \<or> c = 46)"

text \<open>
  The body of the loop over \<open>parts\<close>. \<^verbatim>\<open>toks[-1]\<close> raises IndexError on an empty list;
  unpacking into \<^verbatim>\<open>fam, giv\<close> raises ValueError unless the list has two elements.
\<close>

definition parse_part :: "ustring \<Rightarrow> py_error + author" where
  "parse_part p =
     (if 44 \<in> set p
      then (case map py_strip (py_split1 44 p) of
              [fam, giv] \<Rightarrow> Inr \<lparr>family = fam, given = giv\<rparr>
            | _ \<Rightarrow> Inl ValueError)
      else (let toks = py_split_ws p
            in if toks = [] then Inl IndexError
               else Inr \<lparr>family = last toks, given = py_join [32] (butlast toks)\<rparr>))"

fun parse_parts :: "ustring list \<Rightarrow> py_error + author list" where
  "parse_parts [] = Inr []"
| "parse_parts (p # ps) =
     (case parse_part p of
        Inl e \<Rightarrow> Inl e
      | Inr a \<Rightarrow> (case parse_parts ps of Inl e \<Rightarrow> Inl e | Inr as \<Rightarrow> Inr (a # as)))"

definition smart_parse_authors :: "ustring \<Rightarrow> py_error + author list" where
  "smart_parse_authors raw =
     (if raw = [] then Inr []
      else
        (let s = py_replace [65307] (ustr '';'')
                   (py_replace (ustr '' & '') (ustr '' ; '')
                      (py_replace (ustr '' and '') (ustr '' ; '') raw));
             parts = map (py_strip_of strip_set)
                       (filter (\<lambda>p. py_strip_of strip_set p \<noteq> []) (py_split 59 s))
         in parse_parts parts))"

section \<open>parse_citation\<close>

record citation =
  authors :: "author list"
  title :: ustring
  journal :: ustring
  volume :: ustring
  issue :: ustring
  pages :: ustring
  year :: ustring
  doi :: ustring
  url :: ustring
  raw_text :: ustring
  files :: "ustring list"

text \<open>The class \<^verbatim>\<open>[-._;()/:A-Za-z0-9]\<close> of the DOI pattern.\<close>

definition doi_char :: "uchar \<Rightarrow> bool" where
  "doi_char c =
     (c \<in> set (ustr ''-._;()/:'') \<or> 65 \<le> c \<and> c \<le> 90 \<or> 97 \<le> c \<and> c \<le> 122 \<or>
      48 \<le> c \<and> c \<le> 57)"

text \<open>\<^verbatim>\<open>(10\.\d{4,9}/[-._;()/:A-Za-z0-9]+)\<close>\<close>

definition doi_re :: re where
  "doi_re =
     Grp 1 (seqs [Str (ustr ''10.''), Rep re_digit 4 (Some 9) True, Lit 47,
                  Rep doi_char 1 None True])"

text \<open>\<^verbatim>\<open>(https?://[^\s]+)\<close>\<close>

definition url_re :: re where
  "url_re =
     Grp 1 (seqs [Str (ustr ''http''), Rep (\<lambda>c. c = 115) 0 (Some 1) True,
                  Str (ustr ''://''), Rep (\<lambda>c. \<not> py_isspace c) 1 None True])"

text \<open>\<^verbatim>\<open>(\d{1,5}\s*[-D]\s*\d{1,5})\<close>, where \<^verbatim>\<open>D\<close> stands for the en dash U+2013.\<close>

definition pages_re :: re where
  "pages_re =
     Grp 1 (seqs [Rep re_digit 1 (Some 5) True, Rep py_isspace 0 None True,
                  Cls (\<lambda>c. c = 45 \<or> c = 8211), Rep py_isspace 0 None True,
                  Rep re_digit 1 (Some 5) True])"

text \<open>\<^verbatim>\<open>19\d{2}|20\d{2}\<close>\<close>

definition year_alt :: re where
  "year_alt =
     Alt (Seq (Str (ustr ''19'')) (Rep re_digit 2 (Some 2) True))
         (Seq (Str (ustr ''20'')) (Rep re_digit 2 (Some 2) True))"

text \<open>\<^verbatim>\<open>(19\d{2}|20\d{2})\<close>\<close>

definition year_re :: re where
  "year_re = Grp 1 year_alt"

text \<open>
  \<^verbatim>\<open>^(?P<authors>.+?)\s*\((?P<year>19\d{2}|20\d{2})\)\.\s*(?P<title>.+?)\.\s*(?P<rest>.+)$\<close>
  with the groups numbered as Python numbers them: authors 1, year 2, title 3, rest 4.
\<close>

definition apa :: re where
  "apa =
     seqs [Bol, Grp 1 (Rep re_dot 1 None False), Rep py_isspace 0 None True, Lit 40,
           Grp 2 year_alt, Lit 41, Lit 46, Rep py_isspace 0 None True,
           Grp 3 (Rep re_dot 1 None False), Lit 46, Rep py_isspace 0 None True,
           Grp 4 (Rep re_dot 1 None True), Eol]"

text \<open>The record \<open>result\<close> starts as.\<close>

definition blank_result :: "ustring \<Rightarrow> citation" where
  "blank_result raw =
     \<lparr>authors = [], title = [], journal = [], volume = [], issue = [], pages = [],
      year = [], doi = [], url = [], raw_text = py_strip raw, files = []\<rparr>"

text \<open>The three searches that run before any format is tried: DOI, URL, pages.\<close>

definition set_doi :: "ustring \<Rightarrow> citation \<Rightarrow> citation" where
  "set_doi text result =
     (case re_search doi_re text of None \<Rightarrow> result | Some m \<Rightarrow> result\<lparr>doi := group 1 m\<rparr>)"

definition set_url :: "ustring \<Rightarrow> citation \<Rightarrow> citation" where
  "set_url text result =
     (case re_search url_re text of None \<Rightarrow> result | Some m \<Rightarrow> result\<lparr>url := group 1 m\<rparr>)"

definition set_pages :: "ustring \<Rightarrow> citation \<Rightarrow> citation" where
  "set_pages text result =
     (case re_search pages_re text of
        None \<Rightarrow> result
      | Some m \<Rightarrow> result\<lparr>pages := py_replace [32] [] (group 1 m)\<rparr>)"

text \<open>The search for a year that both fallback stages end with.\<close>

definition set_year :: "ustring \<Rightarrow> citation \<Rightarrow> citation" where
  "set_year text result =
     (case re_search year_re text of None \<Rightarrow> result | Some y \<Rightarrow> result\<lparr>year := group 1 y\<rparr>)"

text \<open>The branch taken when the pattern \<open>apa\<close> matches.\<close>

definition apa_stage :: "mstate \<Rightarrow> citation \<Rightarrow> py_error + citation" where
  "apa_stage m result =
     (case smart_parse_authors (group 1 m) of
        Inl e \<Rightarrow> Inl e
      | Inr a \<Rightarrow>
          Inr (result\<lparr>authors := a, year := group 2 m, title := py_strip (group 3 m),
                      journal := py_strip (group 4 m)\<rparr>))"

text \<open>The split at full stops, taken when it leaves two segments or more.\<close>

definition sentence_stage :: "ustring \<Rightarrow> ustring list \<Rightarrow> citation \<Rightarrow> py_error + citation" where
  "sentence_stage text seg result =
     (case smart_parse_authors (seg ! 0) of
        Inl e \<Rightarrow> Inl e
      | Inr a \<Rightarrow>
          (let r1 = result\<lparr>authors := a, title := seg ! 1\<rparr>;
               r2 = (if 3 \<le> length seg then r1\<lparr>journal := seg ! 2\<rparr> else r1)
           in Inr (set_year text r2)))"

text \<open>The split at commas, the last stage.\<close>

definition comma_stage :: "ustring \<Rightarrow> citation \<Rightarrow> py_error + citation" where
  "comma_stage text result =
     (let parts = map py_strip (filter (\<lambda>p. py_strip p \<noteq> []) (py_split 44 text))
      in case (if parts \<noteq> [] then smart_parse_authors (parts ! 0) else Inr (authors result)) of
           Inl e \<Rightarrow> Inl e
         | Inr a \<Rightarrow>
             (let r1 = result\<lparr>authors := a\<rparr>;
                  r2 = (if 2 \<le> length parts then r1\<lparr>title := parts ! 1\<rparr> else r1);
                  r3 = (if 3 \<le> length parts then r2\<lparr>journal := parts ! 2\<rparr> else r2)
              in Inr (set_year text r3)))"

text \<open>\<^verbatim>\<open>text = raw.replace("\n", " ").strip()\<close>\<close>

definition text_of :: "ustring \<Rightarrow> ustring" where
  "text_of raw = py_strip (py_replace [10] [32] raw)"

definition parse_citation :: "ustring \<Rightarrow> py_error + citation" where
  "parse_citation raw =
     (let text = text_of raw;
          result = set_pages text (set_url text (set_doi text (blank_result raw)))
      in case re_match apa text of
           Some m \<Rightarrow> apa_stage m result
         | None \<Rightarrow>
             (let seg = map py_strip (filter (\<lambda>s. py_strip s \<noteq> []) (py_split 46 text))
              in if 2 \<le> length seg then sentence_stage text seg result
                 else comma_stage text result))"

section \<open>Rendering and the document\<close>

text \<open>An entry of the library is a citation with its key \<^verbatim>\<open>"id"\<close>.\<close>

record entry = citation +
  entry_id :: ustring

definition apa_citation :: "entry \<Rightarrow> ustring" where
  "apa_citation entry =
     (if authors entry = [] then ustr ''(Unknown, '' @ year entry @ ustr '')''
      else if length (authors entry) = 1
      then ustr ''('' @ family (authors entry ! 0) @ ustr '', '' @ year entry @ ustr '')''
      else if length (authors entry) = 2
      then ustr ''('' @ family (authors entry ! 0) @ ustr '' & '' @
           family (authors entry ! 1) @ ustr '', '' @ year entry @ ustr '')''
      else ustr ''('' @ family (authors entry ! 0) @ ustr '' et al., '' @ year entry @
           ustr '')'')"

text \<open>
  The document is the list \<^verbatim>\<open>doc.paragraphs\<close>; a heading is a paragraph with a level.
  \<^verbatim>\<open>add_heading\<close> and \<^verbatim>\<open>add_paragraph\<close> append to it.
\<close>

record para =
  level :: "nat option"
  para_text :: ustring

type_synonym document = "para list"

text \<open>\<^verbatim>\<open>\[id:(.*?)\]\<close>\<close>

definition token_re :: re where
  "token_re = seqs [Str (ustr ''[id:''), Grp 1 (Rep re_dot 0 None False), Lit 93]"

text \<open>\<^verbatim>\<open>f"[id:{rid}]"\<close>\<close>

definition token :: "ustring \<Rightarrow> ustring" where
  "token rid = ustr ''[id:'' @ rid @ ustr '']''"

text \<open>\<^verbatim>\<open>next((x for x in library if x["id"] == rid), None)\<close>\<close>

definition find_entry :: "entry list \<Rightarrow> ustring \<Rightarrow> entry option" where
  "find_entry library rid = find (\<lambda>x. entry_id x = rid) library"

text \<open>
  \<open>id_map\<close> is a \<^verbatim>\<open>dict\<close>: its items are kept, and iterated, in the order the keys were
  first stored. It is modelled by the list of its items in that order.
\<close>

type_synonym id_map = "(ustring \<times> int) list"

text \<open>The body of the first loop: number a raw id not seen before.\<close>

definition number_id :: "id_map \<times> int \<Rightarrow> ustring \<Rightarrow> id_map \<times> int" where
  "number_id st rid =
     (if map_of (fst st) rid = None then (fst st @ [(rid, snd st)], snd st + 1) else st)"

definition number_ids :: "document \<Rightarrow> id_map \<times> int" where
  "number_ids doc =
     foldl (\<lambda>st p. foldl number_id st (re_findall token_re (para_text p))) ([], 1) doc"

text \<open>The body of the second loop, for one item of \<open>id_map\<close> on the text of a paragraph.\<close>

definition substitute :: "entry list \<Rightarrow> ustring \<Rightarrow> ustring \<Rightarrow> ustring \<times> int \<Rightarrow> ustring" where
  "substitute library style txt item =
     (case find_entry library (fst item) of
        None \<Rightarrow> txt
      | Some entry \<Rightarrow>
          py_replace (token (fst item))
            (if style = ustr ''APA7'' then apa_citation entry
             else ustr ''['' @ py_str_int (snd item) @ ustr '']'')
            txt)"

text \<open>\<open>replace_ids\<close> rewrites the paragraphs in place and returns \<open>id_map\<close>.\<close>

definition replace_ids :: "document \<Rightarrow> entry list \<Rightarrow> ustring \<Rightarrow> document \<times> id_map" where
  "replace_ids doc library style =
     (let id_map = fst (number_ids doc)
      in (map (\<lambda>p. p\<lparr>para_text := foldl (substitute library style) (para_text p) id_map\<rparr>) doc,
          id_map))"

definition ref_line :: "entry \<Rightarrow> int \<Rightarrow> ustring" where
  "ref_line e num =
     ustr ''['' @ py_str_int num @ ustr ''] '' @ title e @ ustr ''. '' @ journal e @
     ustr '' ('' @ year e @ ustr '').''"

text \<open>The heading under a style other than APA7 is the four characters U+53C2 U+8003 U+6587 U+732E.\<close>

definition insert_refs :: "document \<Rightarrow> entry list \<Rightarrow> id_map \<Rightarrow> ustring \<Rightarrow> document" where
  "insert_refs doc library id_map style =
     doc @
     [\<lparr>level = Some 1,
       para_text = (if style = ustr ''APA7'' then ustr ''References''
                    else [21442, 32771, 25991, 29486])\<rparr>] @
     concat (map (\<lambda>item. case find_entry library (fst item) of
                            None \<Rightarrow> []
                          | Some e \<Rightarrow> [\<lparr>level = None, para_text = ref_line e (snd item)\<rparr>])
                 (sort_key snd id_map))"

text \<open>\<^verbatim>\<open>process_docx\<close>, without the reading and the writing of the file.\<close>

definition process_docx :: "document \<Rightarrow> entry list \<Rightarrow> ustring \<Rightarrow> document" where
  "process_docx doc library style =
     (let (doc', id_map) = replace_ids doc library style
      in insert_refs doc' library id_map style)"

section \<open>Values the examples are built from\<close>

definition plain :: "ustring \<Rightarrow> para" where
  "plain s = \<lparr>level = None, para_text = s\<rparr>"

definition named :: "ustring \<Rightarrow> author" where
  "named f = \<lparr>family = f, given = []\<rparr>"

definition entry_of :: "ustring \<Rightarrow> author list \<Rightarrow> ustring \<Rightarrow> entry" where
  "entry_of i as y =
     \<lparr>authors = as, title = ustr ''T'', journal = ustr ''J'', volume = [], issue = [],
      pages = [], year = y, doi = [], url = [], raw_text = [], files = [],
      entry_id = i\<rparr>"

section \<open>The claims' own notions\<close>



text \<open>A text that starts with \<^verbatim>\<open>19dd\<close> or \<^verbatim>\<open>20dd\<close>, \<^verbatim>\<open>d\<close> a digit.\<close>

fun is_year4 :: "ustring \<Rightarrow> bool" where
  "is_year4 (a # b # c # d # rest) =
     ((a = 49 \<and> b = 57 \<or> a = 50 \<and> b = 48) \<and> re_digit c \<and> re_digit d)"
| "is_year4 _ = False"

text \<open>
  The leftmost four characters of that form anywhere in a text, whatever stands before
  or after them; empty when there are none.
\<close>

fun first_year :: "ustring \<Rightarrow> ustring" where
  "first_year [] = []"
| "first_year (c # cs) = (if is_year4 (c # cs) then take 4 (c # cs) else first_year cs)"

text \<open>
  The reading of claim C5: the digit tokens of a text are its maximal runs of digits,
  and the year is the first token of exactly four digits of the form above; empty when
  there is none.
\<close>

fun digit_runs_go :: "ustring \<Rightarrow> ustring \<Rightarrow> ustring list" where
  "digit_runs_go acc [] = (if acc = [] then [] else [rev acc])"
| "digit_runs_go acc (c # cs) =
     (if re_digit c then digit_runs_go (c # acc) cs
      else if acc = [] then digit_runs_go [] cs else rev acc # digit_runs_go [] cs)"

definition first_year_token :: "ustring \<Rightarrow> ustring" where
  "first_year_token s =
     (case filter (\<lambda>t. length t = 4 \<and> is_year4 t) (digit_runs_go [] s) of
        [] \<Rightarrow> [] | t # _ \<Rightarrow> t)"


section \<open>What the code does\<close>

subsection \<open>When the author parser raises\<close>

text \<open>
  A segment makes \<open>parse_part\<close> raise exactly when it has no comma and holds whitespace
  only; the segments reach it trimmed of spaces, commas and full stops and not empty.
  So \<open>smart_parse_authors\<close> raises exactly when a segment is, once trimmed, a non-empty
  run of whitespace other than the space, and IndexError is the only error. A string
  of spaces parses to no author.
\<close>

lemma split_ws_go_Nil: "split_ws_go acc s = [] \<longleftrightarrow> acc = [] \<and> list_all py_isspace s"
  by (induction s arbitrary: acc) auto

lemma parse_part_raises:
  "parse_part p = Inl e \<longleftrightarrow> e = IndexError \<and> 44 \<notin> set p \<and> list_all py_isspace p"
  by (auto simp: parse_part_def py_split1_def py_split_ws_def split_ws_go_Nil Let_def)

lemma parse_parts_raises:
  "parse_parts ps = Inl e \<longleftrightarrow>
     e = IndexError \<and> (\<exists>p \<in> set ps. 44 \<notin> set p \<and> list_all py_isspace p)"
proof (induction ps)
  case Nil
  then show ?case by simp
next
  case (Cons p ps)
  show ?case
  proof (cases "parse_part p")
    case (Inl e')
    then show ?thesis using parse_part_raises [of p e'] by auto
  next
    case (Inr a)
    then have "\<not> (44 \<notin> set p \<and> list_all py_isspace p)"
      using parse_part_raises [of p IndexError] by auto
    with Inr Cons.IH show ?thesis by (auto split: sum.splits)
  qed
qed

lemma replace_go_absent:
  assumes "\<forall>x \<in> set s. x = 32" and "\<exists>y \<in> set old. y \<noteq> 32"
  shows "replace_go old new s = s"
  using assms(1)
proof (induction s)
  case Nil
  then show ?case by simp
next
  case (Cons c cs)
  have "take (length old) (c # cs) \<noteq> old"
  proof
    assume "take (length old) (c # cs) = old"
    then have "set old \<subseteq> set (c # cs)" by (metis set_take_subset)
    with Cons.prems assms(2) show False by auto
  qed
  with Cons show ?case by simp
qed

lemma split_go_absent: "sep \<notin> set s \<Longrightarrow> split_go sep acc s = [rev acc @ s]"
  by (induction s arbitrary: acc) auto

lemma smart_parse_authors_spaces:
  assumes "\<forall>x \<in> set raw. x = 32"
  shows "smart_parse_authors raw = Inr []"
proof (cases "raw = []")
  case True
  then show ?thesis by (simp add: smart_parse_authors_def)
next
  case False
  have r1: "py_replace (ustr '' and '') (ustr '' ; '') raw = raw"
    using replace_go_absent [OF assms, of "ustr '' and ''"] by (simp add: py_replace_def ustr_def)
  have r2: "py_replace (ustr '' & '') (ustr '' ; '') raw = raw"
    using replace_go_absent [OF assms, of "ustr '' & ''"] by (simp add: py_replace_def ustr_def)
  have r3: "py_replace [65307] (ustr '';'') raw = raw"
    using replace_go_absent [OF assms, of "[65307]"] by (simp add: py_replace_def)
  from assms have "59 \<notin> set raw" by auto
  then have sp: "py_split 59 raw = [raw]"
    by (simp add: py_split_def split_go_absent)
  from assms have "\<forall>x \<in> set raw. strip_set x"
    by (simp add: strip_set_def)
  then have d: "dropWhile strip_set raw = []"
    by (simp only: dropWhile_eq_Nil_conv)
  have st: "py_strip_of strip_set raw = []"
    by (simp only: py_strip_of_def d rev.simps dropWhile.simps)
  show ?thesis
    by (simp add: smart_parse_authors_def False r1 r2 r3 sp st)
qed

lemma smart_parse_authors_only_IndexError:
  "smart_parse_authors raw = Inl e \<Longrightarrow> e = IndexError"
  by (auto simp: smart_parse_authors_def Let_def parse_parts_raises split: if_splits)

lemma parse_citation_only_IndexError:
  "parse_citation raw = Inl e \<Longrightarrow> e = IndexError"
  by (auto simp: parse_citation_def apa_stage_def sentence_stage_def comma_stage_def Let_def
      split: option.splits sum.splits if_splits dest: smart_parse_authors_only_IndexError)


lemma space_not_comma: "list_all py_isspace p \<Longrightarrow> 44 \<notin> set p"
  by (auto simp: list_all_iff py_isspace_def)

lemma smart_parse_authors_raises:
  "smart_parse_authors raw = Inl e \<longleftrightarrow>
     e = IndexError \<and>
     (\<exists>seg \<in> set (py_split 59
                    (py_replace [65307] (ustr '';'')
                       (py_replace (ustr '' & '') (ustr '' ; '')
                          (py_replace (ustr '' and '') (ustr '' ; '') raw)))).
         py_strip_of strip_set seg \<noteq> [] \<and> list_all py_isspace (py_strip_of strip_set seg))"
proof (cases "raw = []")
  case True
  then show ?thesis
    by (simp add: smart_parse_authors_def py_replace_def ustr_def py_split_def py_strip_of_def)
next
  case False
  then show ?thesis
    using space_not_comma
    by (auto simp: smart_parse_authors_def Let_def parse_parts_raises)
qed

subsection \<open>Parsing authors\<close>

text \<open>
  Claim C2: on the empty string and on every string of whitespace only,
  \<open>smart_parse_authors\<close> returns the empty list of authors and does not fail.
  The code does not do that on a tab: \<^verbatim>\<open>strip(" ,.")\<close> removes the space but no other
  whitespace, so the segment passes the filter, \<^verbatim>\<open>split()\<close> then leaves no token and
  \<^verbatim>\<open>toks[-1]\<close> raises IndexError.
\<close>

theorem smart_parse_authors_tab_raises:
  "smart_parse_authors [9] = Inl IndexError"
  by code_simp

text \<open>
  Claim C4: \<open>smart_parse_authors\<close> maps \<^verbatim>\<open>Smith, J.; Doe, A.\<close> to Smith with given name
  \<^verbatim>\<open>J.\<close> and Doe with given name \<^verbatim>\<open>A.\<close>, the full stops kept. The code returns
  something else.
\<close>

theorem smith_doe_periods_counterexample:
  "smart_parse_authors (ustr ''Smith, J.; Doe, A.'') \<noteq>
     Inr [\<lparr>family = ustr ''Smith'', given = ustr ''J.''\<rparr>,
          \<lparr>family = ustr ''Doe'', given = ustr ''A.''\<rparr>]"
  by code_simp

text \<open>
  Claim C4 as the code has it: each segment is trimmed of spaces, commas and full stops
  at both ends before it is split, so the full stop that ends a segment is lost and
  the given names are \<^verbatim>\<open>J\<close> and \<^verbatim>\<open>A\<close>.
\<close>

theorem smith_doe_periods_trimmed:
  "smart_parse_authors (ustr ''Smith, J.; Doe, A.'') =
     Inr [\<lparr>family = ustr ''Smith'', given = ustr ''J''\<rparr>,
          \<lparr>family = ustr ''Doe'', given = ustr ''A''\<rparr>]"
  by code_simp

subsection \<open>Parsing a citation\<close>

text \<open>
  Claim C1: \<open>parse_citation\<close> returns a record on every string and never raises.
  The code raises IndexError on a text whose author list has a segment made of a tab:
  no pattern matches, the text has no full stop and no comma, so the last stage hands
  the whole text to \<open>smart_parse_authors\<close>, which fails as for claim C2.
\<close>

theorem parse_citation_tab_segment_raises:
  "parse_citation (ustr ''A;'' @ [9] @ ustr '';B'') = Inl IndexError"
  by code_simp

subsection \<open>Rendering\<close>

text \<open>
  Claim C8: under the name-year style \<open>apa_citation\<close> renders a record without authors
  as \<^verbatim>\<open>(Unknown, <year>)\<close>, with one author as \<^verbatim>\<open>(<family>, <year>)\<close>, with two as
  \<^verbatim>\<open>(<family1> & <family2>, <year>)\<close> and with three or more as
  \<^verbatim>\<open>(<family1> et al., <year>)\<close>, the families taken in the order of the record;
  three authors A, B, C and the year 2020 give \<^verbatim>\<open>(A et al., 2020)\<close>.
\<close>

theorem apa_citation_templates:
  "apa_citation (e\<lparr>authors := []\<rparr>) = ustr ''(Unknown, '' @ year e @ ustr '')'' \<and>
   apa_citation (e\<lparr>authors := [a]\<rparr>) =
     ustr ''('' @ family a @ ustr '', '' @ year e @ ustr '')'' \<and>
   apa_citation (e\<lparr>authors := [a, b]\<rparr>) =
     ustr ''('' @ family a @ ustr '' & '' @ family b @ ustr '', '' @ year e @ ustr '')'' \<and>
   apa_citation (e\<lparr>authors := a # b # c # others\<rparr>) =
     ustr ''('' @ family a @ ustr '' et al., '' @ year e @ ustr '')'' \<and>
   apa_citation (e\<lparr>authors := [named (ustr ''A''), named (ustr ''B''), named (ustr ''C'')],
                   year := ustr ''2020''\<rparr>) = ustr ''(A et al., 2020)''"
  by (simp add: apa_citation_def named_def ustr_def)

subsection \<open>The two numeric styles\<close>




subsection \<open>Numbering and the library\<close>

text \<open>
  Claim C10: the \<open>id_map\<close> that \<open>replace_ids\<close> returns does not depend on the library:
  for any two libraries, the same document and the same style the maps are equal, so
  an id the library lacks still takes a number. The numbers of the reference list can
  then have gaps: with the ids a, b, c in the text and a library holding a and c, the
  map is a:1, b:2, c:3 and the list has the lines 1 and 3.
\<close>

theorem id_map_independent_of_library:
  "snd (replace_ids doc library1 style) = snd (replace_ids doc library2 style) \<and>
   snd (replace_ids [plain (ustr ''[id:a] [id:b] [id:c]'')]
          [entry_of (ustr ''a'') [] (ustr ''2020''), entry_of (ustr ''c'') [] (ustr ''2021'')]
          (ustr ''IEEE'')) =
     [(ustr ''a'', 1), (ustr ''b'', 2), (ustr ''c'', 3)] \<and>
   process_docx [plain (ustr ''[id:a] [id:b] [id:c]'')]
      [entry_of (ustr ''a'') [] (ustr ''2020''), entry_of (ustr ''c'') [] (ustr ''2021'')]
      (ustr ''IEEE'') =
     [plain (ustr ''[1] [id:b] [3]''),
      \<lparr>level = Some 1, para_text = [21442, 32771, 25991, 29486]\<rparr>,
      plain (ustr ''[1] T. J (2020).''),
      plain (ustr ''[3] T. J (2021).'')]"
proof -
  have "snd (replace_ids doc library1 style) = snd (replace_ids doc library2 style)"
    by (simp add: replace_ids_def Let_def)
  moreover have "snd (replace_ids [plain (ustr ''[id:a] [id:b] [id:c]'')]
          [entry_of (ustr ''a'') [] (ustr ''2020''), entry_of (ustr ''c'') [] (ustr ''2021'')]
          (ustr ''IEEE'')) =
     [(ustr ''a'', 1), (ustr ''b'', 2), (ustr ''c'', 3)]"
    by code_simp
  moreover have "process_docx [plain (ustr ''[id:a] [id:b] [id:c]'')]
      [entry_of (ustr ''a'') [] (ustr ''2020''), entry_of (ustr ''c'') [] (ustr ''2021'')]
      (ustr ''IEEE'') =
     [plain (ustr ''[1] [id:b] [3]''),
      \<lparr>level = Some 1, para_text = [21442, 32771, 25991, 29486]\<rparr>,
      plain (ustr ''[1] T. J (2020).''),
      plain (ustr ''[3] T. J (2021).'')]"
    by code_simp
  ultimately show ?thesis by simp
qed

subsection \<open>Numbering the placeholders\<close>











subsection \<open>The year of the fallback stages\<close>

lemma rep2: "matches (Rep P 2 (Some 2) True) (p, s, g) =
   (case s of c # d # rest \<Rightarrow> if P c \<and> P d then [(p + 2, rest, g)] else [] | _ \<Rightarrow> [])"
  by (auto simp: Let_def min_def split: list.splits)

lemma str2: "matches (Str [a, b]) (p, s, g) =
   (case s of c # d # rest \<Rightarrow> if c = a \<and> d = b then [(p + 2, rest, g)] else [] | _ \<Rightarrow> [])"
  by (auto split: list.splits)

lemma matches_year_alt:
  "matches year_alt (p, s, g) = (if is_year4 s then [(p + 4, drop 4 s, g)] else [])"
  unfolding year_alt_def ustr_def
  apply (simp only: matches.simps(5,6) list.map of_char_Char)
  apply (simp add: rep2 str2 del: matches.simps)
  apply (cases s rule: is_year4.cases)
  apply (auto split: list.splits)
  done


lemma matches_year_re:
  "matches year_re (p, s, g) = (if is_year4 s then [(p + 4, drop 4 s, (1, take 4 s) # g)] else [])"
  by (simp add: year_re_def matches_year_alt del: matches.simps(5,6))

lemma search_year:
  "map_option (group 1) (search_from year_re p s) =
     (if first_year s = [] then None else Some (first_year s))"
proof (induction s arbitrary: p)
  case Nil
  then show ?case by (simp add: matches_year_re)
next
  case (Cons c cs)
  show ?case
  proof (cases "is_year4 (c # cs)")
    case True
    then show ?thesis by (simp add: matches_year_re group_def)
  next
    case False
    then have "search_from year_re p (c # cs) = search_from year_re (Suc p) cs"
      by (simp add: matches_year_re)
    with False show ?thesis
      by (simp only: Cons.IH first_year.simps if_False)
  qed
qed

lemma year_set_year:
  "year (set_year t r) = (if first_year t = [] then year r else first_year t)"
  using search_year [of 0 t]
  by (auto simp: set_year_def re_search_def split: option.splits if_splits)

lemma year_extract:
  "year (set_pages t r) = year r" "year (set_url t r) = year r"
  "year (set_doi t r) = year r" "year (blank_result raw) = []"
  by (simp_all add: set_pages_def set_url_def set_doi_def blank_result_def split: option.splits)

text \<open>
  Claim C5: when the pattern \<open>apa\<close> does not match and a fallback stage builds the
  record, the year is the first token of four digits in 1900 to 2099 found in the whole
  text, and empty when there is none; four digits inside a longer run of digits do not
  count. The code counts them: in \<^verbatim>\<open>ID 120001, Foo\<close> no digit token has four digits,
  and the year is \<^verbatim>\<open>2000\<close>.
\<close>

theorem embedded_year_counterexample:
  "re_match apa (text_of (ustr ''ID 120001, Foo'')) = None \<and>
   map_sum id year (parse_citation (ustr ''ID 120001, Foo'')) = Inr (ustr ''2000'') \<and>
   first_year_token (text_of (ustr ''ID 120001, Foo'')) = []"
  by code_simp

text \<open>
  Claim C5 as the code has it: when the pattern \<open>apa\<close> does not match and a fallback
  stage builds the record, the year is the leftmost four characters \<^verbatim>\<open>19dd\<close> or
  \<^verbatim>\<open>20dd\<close> of the whole text, also inside a longer run of digits, and empty when the
  text has none.
\<close>

theorem fallback_year_first_substring:
  assumes "re_match apa (text_of raw) = None" and "parse_citation raw = Inr r"
  shows "year r = first_year (text_of raw)"
proof -
  define result where
    "result = set_pages (text_of raw) (set_url (text_of raw) (set_doi (text_of raw) (blank_result raw)))"
  define seg where
    "seg = map py_strip (filter (\<lambda>s. py_strip s \<noteq> []) (py_split 46 (text_of raw)))"
  have blank: "year result = []"
    by (simp add: result_def year_extract)
  from assms(2) have
    "(case re_match apa (text_of raw) of
        Some m \<Rightarrow> apa_stage m result
      | None \<Rightarrow>
          (if 2 \<le> length seg then sentence_stage (text_of raw) seg result
           else comma_stage (text_of raw) result)) = Inr r"
    unfolding parse_citation_def Let_def result_def seg_def .
  with assms(1) have stage:
    "(if 2 \<le> length seg then sentence_stage (text_of raw) seg result
      else comma_stage (text_of raw) result) = Inr r"
    by (simp only: option.case)
  show ?thesis
  proof (cases "2 \<le> length seg")
    case True
    with stage have "sentence_stage (text_of raw) seg result = Inr r" by simp
    then show ?thesis
      using blank
      by (auto simp: sentence_stage_def Let_def year_set_year split: sum.splits if_splits)
  next
    case False
    with stage have "comma_stage (text_of raw) result = Inr r" by simp
    then show ?thesis
      using blank
      by (auto simp: comma_stage_def Let_def year_set_year split: sum.splits if_splits)
  qed
qed

theorem fallback_year_first_substring_witness:
  "re_match apa (text_of (ustr ''Smith J. A study, 2004'')) = None \<and>
   parse_citation (ustr ''Smith J. A study, 2004'') =
     Inr \<lparr>authors = [\<lparr>family = ustr ''J'', given = ustr ''Smith''\<rparr>], title = ustr ''A study, 2004'',
          journal = [], volume = [], issue = [], pages = [], year = ustr ''2004'', doi = [],
          url = [], raw_text = ustr ''Smith J. A study, 2004'', files = []\<rparr> \<and>
   first_year (text_of (ustr ''Smith J. A study, 2004'')) = ustr ''2004''"
proof -
  have h1: "re_match apa (text_of (ustr ''Smith J. A study, 2004'')) = None"
    by code_simp
  have h2: "parse_citation (ustr ''Smith J. A study, 2004'') =
     Inr \<lparr>authors = [\<lparr>family = ustr ''J'', given = ustr ''Smith''\<rparr>], title = ustr ''A study, 2004'',
          journal = [], volume = [], issue = [], pages = [], year = ustr ''2004'', doi = [],
          url = [], raw_text = ustr ''Smith J. A study, 2004'', files = []\<rparr>"
    by code_simp
  from fallback_year_first_substring [OF h1 h2] h1 h2 show ?thesis
    by simp
qed

subsection \<open>Facts about the matcher\<close>







subsection \<open>The pages\<close>












subsection \<open>Replacing in a text that holds another token\<close>



lemma drop_append_le: "n \<le> length xs \<Longrightarrow> drop n (xs @ ys) = drop n xs @ ys"
  by simp











subsection \<open>The raw ids the pattern finds\<close>






subsection \<open>Ids the library lacks\<close>








end
